theory Spec2Isabelle
  imports Complex_Main "HOL-Library.Word"
begin

section \<open>Hydra queue runner: the declarations of state.hh\<close>

text \<open>
  The development follows \<^verbatim>\<open>src/hydra-queue-runner/state.hh\<close>. The header defines
  the data of the queue runner, the constants of the retry policy and the bodies of
  \<^verbatim>\<open>RemoteResult::buildStatus\<close>, \<^verbatim>\<open>Jobset::setShares\<close>, \<^verbatim>\<open>Build::fullJobName\<close> and
  \<^verbatim>\<open>Machine::supportsStep\<close>; they are embedded here as they are written
  (\<^verbatim>\<open>Jobset::shareUsed\<close> is a floating-point quotient and is not). Every other
  member of \<^verbatim>\<open>State\<close> is declared there without a body; those that are needed below
  are modelled in a section of their own.
\<close>

subsection \<open>Identifiers and time\<close>

text \<open>
  \<^verbatim>\<open>typedef unsigned int BuildID; typedef unsigned int JobsetID;\<close> and
  \<^verbatim>\<open>system_time\<close>, a point of the system clock. A \<^verbatim>\<open>nix::StorePath\<close> is opaque to
  the queue runner: a string.
\<close>

type_synonym BuildID = "32 word"
type_synonym JobsetID = "32 word"
type_synonym system_time = rat
type_synonym StorePath = string

subsection \<open>BuildStatus and RemoteResult\<close>

text \<open>The enum \<^verbatim>\<open>BuildStatus\<close>, one constructor per enumerator, in the order of the header.\<close>

datatype BuildStatus =
    bsSuccess
  | bsFailed
  | bsDepFailed
  | bsAborted
  | bsCancelled
  | bsFailedWithOutput
  | bsTimedOut
  | bsCachedFailure
  | bsUnsupported
  | bsLogLimitExceeded
  | bsNarSizeLimitExceeded
  | bsNotDeterministic
  | bsBusy

text \<open>The numeric value the header gives each enumerator.\<close>

fun BuildStatus_code :: "BuildStatus \<Rightarrow> nat" where
  "BuildStatus_code bsSuccess = 0"
| "BuildStatus_code bsFailed = 1"
| "BuildStatus_code bsDepFailed = 2"
| "BuildStatus_code bsAborted = 3"
| "BuildStatus_code bsCancelled = 4"
| "BuildStatus_code bsFailedWithOutput = 6"
| "BuildStatus_code bsTimedOut = 7"
| "BuildStatus_code bsCachedFailure = 8"
| "BuildStatus_code bsUnsupported = 9"
| "BuildStatus_code bsLogLimitExceeded = 10"
| "BuildStatus_code bsNarSizeLimitExceeded = 11"
| "BuildStatus_code bsNotDeterministic = 12"
| "BuildStatus_code bsBusy = 100"

text \<open>
  \<^verbatim>\<open>struct RemoteResult\<close>. \<^verbatim>\<open>time_t\<close> is kept as \<open>int\<close>, \<^verbatim>\<open>unsigned int\<close> as a
  32-bit word.
\<close>

record RemoteResult =
  stepStatus :: BuildStatus
  canRetry :: bool
  isCached :: bool
  canCache :: bool
  errorMsg :: string
  timesBuilt :: "32 word"
  isNonDeterministic :: bool
  startTime :: int
  stopTime :: int
  overhead :: "32 word"
  logFile :: string

text \<open>The default member initialisers of \<^verbatim>\<open>RemoteResult\<close>.\<close>

definition RemoteResult_init :: RemoteResult where
  "RemoteResult_init =
     \<lparr> stepStatus = bsAborted, canRetry = False, isCached = False, canCache = False,
       errorMsg = [], timesBuilt = 0, isNonDeterministic = False,
       startTime = 0, stopTime = 0, overhead = 0, logFile = [] \<rparr>"

text \<open>
  \<^verbatim>\<open>BuildStatus buildStatus() const
  { return stepStatus == bsCachedFailure ? bsFailed : stepStatus; }\<close>
\<close>

definition buildStatus :: "RemoteResult \<Rightarrow> BuildStatus" where
  "buildStatus r = (if stepStatus r = bsCachedFailure then bsFailed else stepStatus r)"

subsection \<open>Jobset\<close>

text \<open>
  \<^verbatim>\<open>class Jobset\<close>: \<^verbatim>\<open>std::atomic<time_t> seconds{0}\<close>,
  \<^verbatim>\<open>std::atomic<unsigned int> shares{1}\<close> and the map \<^verbatim>\<open>steps\<close> from start time to
  duration.
\<close>

record Jobset =
  seconds :: int
  shares :: "32 word"
  jsteps :: "(int \<times> int) list"

definition Jobset_init :: Jobset where
  "Jobset_init = \<lparr> seconds = 0, shares = 1, jsteps = [] \<rparr>"

definition schedulingWindow :: int where
  "schedulingWindow = 24 * 60 * 60"

datatype error = AssertionFailed

text \<open>
  \<^verbatim>\<open>void setShares(int shares_) { assert(shares_ > 0); shares = shares_; }\<close>
  The argument is a signed 32-bit \<^verbatim>\<open>int\<close>; the comparison is signed; the assignment
  converts to \<^verbatim>\<open>unsigned int\<close>, which keeps the bit pattern. A failed assertion
  aborts the process: the error branch.
\<close>

definition setShares :: "32 word \<Rightarrow> Jobset \<Rightarrow> error + Jobset" where
  "setShares shares' j =
     (if 0 <s shares' then Inr (j\<lparr>shares := shares'\<rparr>) else Inl AssertionFailed)"

text \<open>
  \<^verbatim>\<open>double shareUsed() { return (double) seconds / shares; }\<close>
  The quotient is a \<^verbatim>\<open>double\<close>: the conversion of \<^verbatim>\<open>seconds\<close> and the division
  round, and a zero divisor gives an infinity or a NaN. The floating-point value is not
  modelled; the divisor is \<^verbatim>\<open>shares\<close>, converted exactly, and what is proved of it
  below is that it is never zero.
\<close>

definition getSeconds :: "Jobset \<Rightarrow> int" where
  "getSeconds j = seconds j"

text \<open>
  The states a \<^verbatim>\<open>Jobset\<close> object can reach. \<^verbatim>\<open>shares\<close> is private and
  \<^verbatim>\<open>setShares\<close> is the only member of the header that assigns it. The bodies of
  \<^verbatim>\<open>addStep\<close> and \<^verbatim>\<open>pruneSteps\<close> are not in the header; they maintain the usage
  record, so they are taken as arbitrary updates of \<^verbatim>\<open>seconds\<close> and \<^verbatim>\<open>steps\<close>.
\<close>

inductive Jobset_reachable :: "Jobset \<Rightarrow> bool" where
  reach_init: "Jobset_reachable Jobset_init"
| reach_setShares:
    "Jobset_reachable j \<Longrightarrow> setShares n j = Inr j' \<Longrightarrow> Jobset_reachable j'"
| reach_usage:
    "Jobset_reachable j \<Longrightarrow> Jobset_reachable (j\<lparr>seconds := s, jsteps := st\<rparr>)"

subsection \<open>Build\<close>

text \<open>
  A derivation as the queue runner sees it: the store path of the \<^verbatim>\<open>.drv\<close> and its
  input derivations. The store hands out the derivations of a build's closure; the
  closure is kept here as the tree under the build's own derivation, in which a
  shared dependency occurs once under each derivation that refers to it.
\<close>

datatype Drv = Drv (path: StorePath) (inputDrvs: "Drv list")

text \<open>
  \<^verbatim>\<open>struct Build\<close>. \<^verbatim>\<open>drvPath\<close> is kept with the derivation the store has at that
  path (\<open>drv\<close>); \<^verbatim>\<open>jobset\<close> is the jobset's id; \<^verbatim>\<open>toplevel\<close> is the step at the
  path of \<open>drv\<close>.
\<close>

record Build =
  id' :: BuildID
  drv :: Drv
  jobsetId :: JobsetID
  projectName :: string
  jobsetName :: string
  jobName :: string
  timestamp :: int
  maxSilentTime :: "32 word"
  buildTimeout :: "32 word"
  localPriority :: int
  globalPriority :: int
  finishedInDB :: bool

text \<open>
  \<^verbatim>\<open>std::string fullJobName() { return projectName + ":" + jobsetName + ":" + jobName; }\<close>
\<close>

definition fullJobName :: "Build \<Rightarrow> string" where
  "fullJobName b = projectName b @ '':'' @ jobsetName b @ '':'' @ jobName b"


subsection \<open>Step and Machine\<close>

text \<open>
  The fields of \<^verbatim>\<open>struct Step\<close> that \<^verbatim>\<open>supportsStep\<close> reads: \<^verbatim>\<open>drv->platform\<close>,
  \<^verbatim>\<open>requiredSystemFeatures\<close> (a \<^verbatim>\<open>nix::StringSet\<close>) and \<^verbatim>\<open>preferLocalBuild\<close>.
\<close>

record Step =
  drvPath :: StorePath
  platform :: string
  requiredSystemFeatures :: "string set"
  preferLocalBuild :: bool
  isDeterministic :: bool
  systemType :: string

text \<open>
  \<^verbatim>\<open>struct Step::State\<close>, the block behind the step's lock. A step is identified by
  its store path (\<^verbatim>\<open>State::steps\<close> is a map from \<^verbatim>\<open>nix::StorePath\<close> to the step), so
  a \<^verbatim>\<open>Step::ptr\<close> or \<^verbatim>\<open>Step::wptr\<close> is the path here; a \<^verbatim>\<open>Build::wptr\<close> is the
  build's id and a \<^verbatim>\<open>Jobset::ptr\<close> the jobset's id. A \<^verbatim>\<open>system_time\<close> is a number of
  seconds since the epoch, with fractions. \<^verbatim>\<open>int\<close> priorities are only stored and
  compared, and are kept as \<open>int\<close>.
\<close>

record Step_State =
  created :: bool
  deps :: "StorePath set"
  rdeps :: "StorePath list"
  builds :: "BuildID list"
  jobsets :: "JobsetID set"
  tries :: "32 word"
  after :: system_time
  highestGlobalPriority :: int
  highestLocalPriority :: int
  lowestBuildID :: BuildID
  runnableSince :: system_time
  lastSupported :: system_time

text \<open>
  The default member initialisers of \<^verbatim>\<open>Step::State\<close>; \<^verbatim>\<open>lastSupported\<close> is the clock
  at construction, \<^verbatim>\<open>lowestBuildID\<close> the largest \<^verbatim>\<open>unsigned int\<close>.
\<close>

definition Step_State_init :: "system_time \<Rightarrow> Step_State" where
  "Step_State_init now =
     \<lparr> created = False, deps = {}, rdeps = [], builds = [], jobsets = {},
       tries = 0, after = 0, highestGlobalPriority = 0, highestLocalPriority = 0,
       lowestBuildID = 0xFFFFFFFF, runnableSince = 0, lastSupported = now \<rparr>"

text \<open>\<^verbatim>\<open>typedef std::map<nix::StorePath, Step::wptr> Steps\<close>, with each step's state.\<close>

type_synonym Steps = "StorePath \<rightharpoonup> Step_State"

text \<open>
  \<^verbatim>\<open>struct Machine : nix::Machine\<close>. The base class comes from the nix library
  (\<^verbatim>\<open>nix/store/machines.hh\<close>); the three sets \<^verbatim>\<open>supportsStep\<close> reads are its fields.
\<close>

record Machine =
  systemTypes :: "string set"
  supportedFeatures :: "string set"
  mandatoryFeatures :: "string set"

text \<open>
  \<^verbatim>\<open>bool supportsStep(Step::ptr step)\<close>. \<^verbatim>\<open>nix::settings.thisSystem\<close> is a setting
  of the nix library and is a parameter here. Each of the two \<^verbatim>\<open>for\<close> loops
  returns \<^verbatim>\<open>false\<close> at the first element that fails its test and falls through
  otherwise, so each is a bounded quantifier over the set it walks; the three checks
  are made in the order of the source.
\<close>

definition supportsStep :: "string \<Rightarrow> Step \<Rightarrow> Machine \<Rightarrow> bool" where
  "supportsStep thisSystem step m =
     (if (if platform step = ''builtin'' then thisSystem else platform step) \<notin> systemTypes m
      then False
      else if \<not> (\<forall>f \<in> mandatoryFeatures m.
                 \<not> (f \<notin> requiredSystemFeatures step
                    \<and> \<not> (f = ''local'' \<and> preferLocalBuild step)))
      then False
      else if \<not> (\<forall>f \<in> requiredSystemFeatures step. \<not> (f \<notin> supportedFeatures m))
      then False
      else True)"

subsection \<open>The constants of State\<close>

text \<open>
  \<^verbatim>\<open>const unsigned int maxTries = 5;
  const unsigned int retryInterval = 60; // seconds
  const float retryBackoff = 3.0;
  const unsigned int maxParallelCopyClosure = 4;
  const unsigned int maxUnsupportedTime = 0;\<close>
  The powers of 3 that occur below are at most \<open>3 ^ 4\<close> and are exact in \<^verbatim>\<open>float\<close>,
  so \<^verbatim>\<open>retryBackoff\<close> is the rational 3.
\<close>

definition maxTries :: "32 word" where
  "maxTries = 5"

definition retryInterval :: "32 word" where
  "retryInterval = 60"

definition retryBackoff :: rat where
  "retryBackoff = 3"

definition maxParallelCopyClosure :: "32 word" where
  "maxParallelCopyClosure = 4"

definition maxUnsupportedTime :: "32 word" where
  "maxUnsupportedTime = 0"

subsection \<open>The matching scenario\<close>

text \<open>
  The machines and the step of the matching scenario: step Y requires the feature
  \<^verbatim>\<open>benchmark\<close>; machine M1 has it as a mandatory (and supported) feature; machine M2
  supports \<^verbatim>\<open>kvm\<close> and \<^verbatim>\<open>big-parallel\<close> but not \<^verbatim>\<open>benchmark\<close>.
\<close>

definition scenario_Y :: Step where
  "scenario_Y =
     \<lparr> drvPath = ''/nix/store/y.drv'', platform = ''x86_64-linux'',
       requiredSystemFeatures = {''benchmark''}, preferLocalBuild = False,
       isDeterministic = False, systemType = ''x86_64-linux:benchmark'' \<rparr>"

definition scenario_M1 :: Machine where
  "scenario_M1 =
     \<lparr> systemTypes = {''x86_64-linux''}, supportedFeatures = {''benchmark''},
       mandatoryFeatures = {''benchmark''} \<rparr>"

definition scenario_M2 :: Machine where
  "scenario_M2 =
     \<lparr> systemTypes = {''x86_64-linux''}, supportedFeatures = {''kvm'', ''big-parallel''},
       mandatoryFeatures = {} \<rparr>"

section \<open>Members of State without a body in the header\<close>

subsection \<open>The retry policy\<close>

text \<open>
  Modelled from the spec: the code that handles the result of an attempt
  (\<^verbatim>\<open>State::builder\<close>, \<^verbatim>\<open>State::doBuildStep\<close>, \<^verbatim>\<open>State::failStep\<close>) is declared in
  state.hh without a body. Section 4.6 of the specification gives the policy: on
  receiving a RemoteResult for a step, increment \<^verbatim>\<open>tries\<close>; if the status is transient
  (aborted) and retryable, then if \<^verbatim>\<open>tries < maxTries\<close> set
  \<^verbatim>\<open>after = now + retryInterval * retryBackoff^(tries-1)\<close> and retry, otherwise treat it
  as a definitive failure; any other failure is definitive; success finishes the step.
  The constants are those of the header. \<^verbatim>\<open>tries - 1\<close> is unsigned arithmetic.
\<close>

definition retryDelay :: "32 word \<Rightarrow> rat" where
  "retryDelay t = of_nat (unat retryInterval) * retryBackoff ^ unat (t - 1)"

datatype Verdict = StepSucceeded | StepRetry | StepFailedDefinitively

text \<open>
  Modelled from the spec: a transient, retryable outcome is the status \<^verbatim>\<open>aborted\<close>
  with \<^verbatim>\<open>canRetry = true\<close> (section 4.5; the header marks \<^verbatim>\<open>canRetry\<close> as
  "for bsAborted").
\<close>

definition transient :: "RemoteResult \<Rightarrow> bool" where
  "transient r = (stepStatus r = bsAborted \<and> canRetry r)"

text \<open>
  Modelled from the spec: the handling of one RemoteResult, section 4.6 as quoted
  above; the body is not in the header.
\<close>

definition onRemoteResult ::
  "system_time \<Rightarrow> RemoteResult \<Rightarrow> Step_State \<Rightarrow> Verdict \<times> Step_State" where
  "onRemoteResult now r s =
     (let s' = s\<lparr>tries := tries s + 1\<rparr> in
      if stepStatus r = bsSuccess then (StepSucceeded, s')
      else if transient r then
        (if tries s' < maxTries
         then (StepRetry, s'\<lparr>after := now + retryDelay (tries s')\<rparr>)
         else (StepFailedDefinitively, s'))
      else (StepFailedDefinitively, s'))"

text \<open>
  Modelled from the spec: the life of one step. It starts with the initialisers of
  \<^verbatim>\<open>Step::State\<close>; it is attempted, and a result handled, only while it is neither
  finished nor failed definitively (the last verdict, if any, was a retry); anything
  else the engine does to the step leaves \<^verbatim>\<open>tries\<close> alone.
\<close>

inductive attempts :: "Verdict option \<Rightarrow> Step_State \<Rightarrow> bool" where
  attempts_init: "attempts None (Step_State_init now)"
| attempts_result:
    "attempts v s \<Longrightarrow> v = None \<or> v = Some StepRetry \<Longrightarrow>
     onRemoteResult now r s = (v', s') \<Longrightarrow> attempts (Some v') s'"
| attempts_other:
    "attempts v s \<Longrightarrow> tries s' = tries s \<Longrightarrow> attempts v s'"

subsection \<open>Graph ingestion\<close>





subsection \<open>The runnable queue\<close>


text \<open>The \<^verbatim>\<open>deps\<close> and \<^verbatim>\<open>rdeps\<close> fields of the step at a store path.\<close>

definition deps_of :: "Steps \<Rightarrow> StorePath \<Rightarrow> StorePath set" where
  "deps_of g p = (case g p of None \<Rightarrow> {} | Some st \<Rightarrow> deps st)"

definition rdeps_of :: "Steps \<Rightarrow> StorePath \<Rightarrow> StorePath list" where
  "rdeps_of g p = (case g p of None \<Rightarrow> [] | Some st \<Rightarrow> rdeps st)"

text \<open>
  The part of \<^verbatim>\<open>class State\<close> that the queue lives in: \<^verbatim>\<open>steps\<close>, \<^verbatim>\<open>runnable\<close>
  (\<^verbatim>\<open>std::list<Step::wptr>\<close>, "Build steps that have no unbuilt dependencies") and
  \<^verbatim>\<open>activeSteps_\<close>; \<open>finished\<close> is the set of steps whose \<^verbatim>\<open>finished\<close> flag is
  set. Modelled from the spec: the header has no field for a step that waits for its
  retry time or for a step that failed definitively; section 4.6 of the specification
  speaks of both, and they are the sets \<open>retrying\<close> and \<open>failed\<close>.
\<close>

record QueueRunner =
  steps :: Steps
  runnable :: "StorePath list"
  activeSteps :: "StorePath set"
  retrying :: "StorePath set"
  finished :: "StorePath set"
  failed :: "StorePath set"


text \<open>
  Modelled from the spec: \<^verbatim>\<open>void makeRunnable(Step::ptr step)\<close> is declared in
  state.hh without a body. Section 4.1: a runnable step is appended to the runnable
  queue and its \<^verbatim>\<open>runnableSince\<close> is stamped.
\<close>

definition makeRunnable :: "system_time \<Rightarrow> StorePath \<Rightarrow> QueueRunner \<Rightarrow> QueueRunner" where
  "makeRunnable now p e =
     e\<lparr> steps := (case steps e p of
                     None \<Rightarrow> steps e
                   | Some st \<Rightarrow> (steps e)(p \<mapsto> st\<lparr>runnableSince := now\<rparr>)),
        runnable := runnable e @ [p] \<rparr>"















section \<open>Properties of the code of the header\<close>

text \<open>
  C7. \<^verbatim>\<open>RemoteResult::buildStatus()\<close> maps the step-only status
  \<^verbatim>\<open>bsCachedFailure\<close> to \<^verbatim>\<open>bsFailed\<close> and is the identity on every other status:
  the result is \<^verbatim>\<open>bsFailed\<close> when the step status is \<^verbatim>\<open>bsCachedFailure\<close>, and the
  step status itself otherwise. The result differs from the step status exactly at
  \<^verbatim>\<open>bsCachedFailure\<close>; on the enumerators' values, 8 goes to 1 and every other value
  to itself.
\<close>

theorem buildStatus_maps_cached_failure:
  "buildStatus (r\<lparr>stepStatus := bsCachedFailure\<rparr>) = bsFailed
   \<and> (buildStatus r = (case stepStatus r of bsCachedFailure \<Rightarrow> bsFailed | s \<Rightarrow> s))
   \<and> (buildStatus r \<noteq> stepStatus r) = (stepStatus r = bsCachedFailure)
   \<and> BuildStatus_code (buildStatus r)
       = (if BuildStatus_code (stepStatus r) = 8 then 1 else BuildStatus_code (stepStatus r))"
  by (cases "stepStatus r") (simp_all add: buildStatus_def)

text \<open>
  C1. \<^verbatim>\<open>supportsStep(step, machine)\<close> returns true if and only if (a) the step's
  platform (the local system's platform when the step's platform is \<^verbatim>\<open>builtin\<close>) is
  one of the machine's system types, (b) every mandatory feature of the machine is
  among the step's required features, the mandatory feature \<^verbatim>\<open>local\<close> being also
  satisfied by a step with \<^verbatim>\<open>preferLocalBuild\<close>, and (c) every feature the step
  requires is among the machine's supported features. In particular a step that
  requires \<^verbatim>\<open>benchmark\<close> is not supported by a machine that does not support
  \<^verbatim>\<open>benchmark\<close>.
\<close>

theorem supportsStep_iff:
  "(supportsStep thisSystem step m \<longleftrightarrow>
      (if platform step = ''builtin'' then thisSystem else platform step) \<in> systemTypes m
      \<and> (\<forall>f \<in> mandatoryFeatures m.
             f \<in> requiredSystemFeatures step \<or> (f = ''local'' \<and> preferLocalBuild step))
      \<and> (\<forall>f \<in> requiredSystemFeatures step. f \<in> supportedFeatures m))
   \<and> (''benchmark'' \<in> requiredSystemFeatures step \<and> ''benchmark'' \<notin> supportedFeatures m
        \<longrightarrow> supportsStep thisSystem step m = False)"
  unfolding supportsStep_def by auto

text \<open>
  The scenario: Y is supported by M1 and not by M2, whatever the local system is; and a
  \<^verbatim>\<open>builtin\<close> step with \<^verbatim>\<open>preferLocalBuild\<close> runs on a machine whose only mandatory
  feature is \<^verbatim>\<open>local\<close>.
\<close>

theorem supportsStep_iff_witness:
  "supportsStep ''aarch64-darwin'' scenario_Y scenario_M1
   \<and> supportsStep ''aarch64-darwin'' scenario_Y scenario_M2 = False
   \<and> supportsStep ''x86_64-linux''
        (scenario_Y\<lparr>platform := ''builtin'', requiredSystemFeatures := {},
                     preferLocalBuild := True\<rparr>)
        (scenario_M2\<lparr>mandatoryFeatures := {''local''}\<rparr>)"
proof -
  have m1: "supportsStep ''aarch64-darwin'' scenario_Y scenario_M1"
    using supportsStep_iff [of "''aarch64-darwin''" scenario_Y scenario_M1]
    by (simp add: scenario_Y_def scenario_M1_def)
  have m2: "supportsStep ''aarch64-darwin'' scenario_Y scenario_M2 = False"
    using supportsStep_iff [of "''aarch64-darwin''" scenario_Y scenario_M2]
    by (simp add: scenario_Y_def scenario_M2_def)
  have loc: "supportsStep ''x86_64-linux''
        (scenario_Y\<lparr>platform := ''builtin'', requiredSystemFeatures := {},
                     preferLocalBuild := True\<rparr>)
        (scenario_M2\<lparr>mandatoryFeatures := {''local''}\<rparr>)"
    using supportsStep_iff [of "''x86_64-linux''"
        "scenario_Y\<lparr>platform := ''builtin'', requiredSystemFeatures := {},
                     preferLocalBuild := True\<rparr>"
        "scenario_M2\<lparr>mandatoryFeatures := {''local''}\<rparr>"]
    by (simp add: scenario_Y_def scenario_M2_def)
  from m1 m2 loc show ?thesis by simp
qed

lemma sless_pos_unat: "0 <s (n::32 word) \<Longrightarrow> 1 \<le> unat n"
proof -
  assume "0 <s n"
  then have "n \<noteq> 0" by auto
  then have "unat n \<noteq> 0" by (simp add: unsigned_eq_0_iff)
  then show ?thesis by simp
qed

lemma setShares_Inr: "setShares n j = Inr j' \<Longrightarrow> 0 <s n \<and> j' = j\<lparr>shares := n\<rparr>"
  by (auto simp: setShares_def split: if_splits)

lemma Jobset_reachable_shares: "Jobset_reachable j \<Longrightarrow> 1 \<le> unat (shares j)"
proof (induction rule: Jobset_reachable.induct)
  case reach_init
  show ?case by (simp add: Jobset_init_def)
next
  case (reach_setShares j n j')
  from reach_setShares.hyps(2) have pos: "0 <s n" and j': "j' = j\<lparr>shares := n\<rparr>"
    using setShares_Inr by blast+
  from pos have "1 \<le> unat n" by (rule sless_pos_unat)
  with j' show ?case by simp
next
  case (reach_usage j s st)
  then show ?case by simp
qed

text \<open>
  C9. In every state a \<^verbatim>\<open>Jobset\<close> can reach, \<^verbatim>\<open>shares\<close> is at least 1: it starts at
  1, and \<^verbatim>\<open>setShares\<close> stores its argument only when the argument is positive (the
  assertion holds exactly then). So the divisor of \<^verbatim>\<open>shareUsed()\<close> is never zero.
  With a positive argument \<^verbatim>\<open>setShares\<close> passes its assertion and stores the
  argument; with any other argument it stops at the assertion.
\<close>

theorem Jobset_shares_positive:
  "Jobset_reachable j \<Longrightarrow>
     1 \<le> unat (shares j) \<and> shares j \<noteq> 0
     \<and> (\<forall>n. 0 <s n \<longrightarrow> setShares n j = Inr (j\<lparr>shares := n\<rparr>))
     \<and> (\<forall>n. \<not> 0 <s n \<longrightarrow> setShares n j = Inl AssertionFailed)"
proof -
  assume "Jobset_reachable j"
  then have ge: "1 \<le> unat (shares j)" by (rule Jobset_reachable_shares)
  then have nz: "shares j \<noteq> 0" by auto
  have pos: "\<forall>n. 0 <s n \<longrightarrow> setShares n j = Inr (j\<lparr>shares := n\<rparr>)"
    by (simp add: setShares_def)
  have neg: "\<forall>n. \<not> 0 <s n \<longrightarrow> setShares n j = Inl AssertionFailed"
    by (simp add: setShares_def)
  from ge nz pos neg show ?thesis by blast
qed

theorem Jobset_shares_positive_witness:
  "1 \<le> unat (shares (Jobset_init\<lparr>shares := 3, seconds := 7200, jsteps := [(100, 7200)]\<rparr>))
   \<and> shares (Jobset_init\<lparr>shares := 3, seconds := 7200, jsteps := [(100, 7200)]\<rparr>) \<noteq> 0
   \<and> setShares 0 (Jobset_init\<lparr>shares := 3, seconds := 7200, jsteps := [(100, 7200)]\<rparr>)
       = Inl AssertionFailed"
proof -
  have "setShares 3 Jobset_init = Inr (Jobset_init\<lparr>shares := 3\<rparr>)"
    by (simp add: setShares_def word_sless_alt)
  with reach_init have "Jobset_reachable (Jobset_init\<lparr>shares := 3\<rparr>)"
    by (rule reach_setShares)
  then have r: "Jobset_reachable (Jobset_init\<lparr>shares := 3, seconds := 7200, jsteps := [(100, 7200)]\<rparr>)"
    by (rule reach_usage)
  have z: "\<not> 0 <s (0::32 word)" by simp
  from Jobset_shares_positive [OF r] z show ?thesis by blast
qed

section \<open>Properties of the modelled members\<close>

subsection \<open>The retry policy\<close>

lemma attempts_inv:
  "attempts v s \<Longrightarrow> unat (tries s) \<le> 5 \<and> ((v = None \<or> v = Some StepRetry) \<longrightarrow> unat (tries s) < 5)"
proof (induction rule: attempts.induct)
  case (attempts_init now)
  then show ?case by (simp add: Step_State_init_def)
next
  case (attempts_result v s now r v' s')
  then have lt: "unat (tries s) < 5" by blast
  then have u: "unat (tries s + 1) = unat (tries s) + 1"
    by (simp add: unat_word_ariths)
  from attempts_result.hyps(3) lt u show ?case
    by (auto simp: onRemoteResult_def Let_def maxTries_def word_less_nat_alt split: if_splits)
next
  case (attempts_other v s s')
  then show ?case by simp
qed

lemma retryDelay_mono:
  assumes "1 \<le> n" and "n < m"
  shows "retryDelay n < retryDelay m"
proof -
  from assms have m1: "1 \<le> m" by simp
  have a: "unat (n - 1) = unat n - 1" using assms(1) by (simp add: unat_sub)
  have b: "unat (m - 1) = unat m - 1" using m1 by (simp add: unat_sub)
  have "unat n < unat m" using assms(2) by (simp add: word_less_nat_alt)
  moreover have "1 \<le> unat n" using assms(1) by (simp add: word_le_nat_alt)
  ultimately have "unat (n - 1) < unat (m - 1)" using a b by arith
  then have "(3::rat) ^ unat (n - 1) < 3 ^ unat (m - 1)"
    by (rule power_strict_increasing) simp
  then show ?thesis by (simp add: retryDelay_def retryBackoff_def retryInterval_def)
qed

text \<open>
  C4. For every step, \<^verbatim>\<open>tries\<close> never exceeds \<^verbatim>\<open>maxTries\<close> (5). When an attempt
  ends with a retryable transient status and the incremented \<^verbatim>\<open>tries\<close> is below
  \<^verbatim>\<open>maxTries\<close>, the step is retried and its retry time is
  \<^verbatim>\<open>after = now + retryInterval * retryBackoff^(tries-1)\<close>, with \<^verbatim>\<open>retryInterval\<close> 60
  seconds and \<^verbatim>\<open>retryBackoff\<close> 3; the delays of successive retries increase
  strictly; and when the incremented \<^verbatim>\<open>tries\<close> reaches \<^verbatim>\<open>maxTries\<close>, the transient
  failure is a definitive failure, not retried.
\<close>

theorem retry_policy_bounded_backoff:
  "attempts v s \<Longrightarrow>
     tries s \<le> maxTries \<and> maxTries = 5 \<and> retryInterval = 60 \<and> retryBackoff = 3
     \<and> (\<forall>now r. transient r \<and> tries s + 1 < maxTries \<longrightarrow>
           onRemoteResult now r s =
             (StepRetry,
              s\<lparr>tries := tries s + 1,
                after := now + of_nat (unat retryInterval)
                               * retryBackoff ^ (unat (tries s + 1) - 1)\<rparr>))
     \<and> (\<forall>now r. transient r \<and> \<not> tries s + 1 < maxTries \<longrightarrow>
           fst (onRemoteResult now r s) = StepFailedDefinitively)
     \<and> (\<forall>n m. 1 \<le> n \<and> n < m \<longrightarrow> retryDelay n < retryDelay m)"
proof -
  assume a: "attempts v s"
  then have le: "unat (tries s) \<le> 5" using attempts_inv by blast
  then have t: "tries s \<le> maxTries" by (simp add: maxTries_def word_le_nat_alt)
  from le have u: "unat (tries s + 1) = unat (tries s) + 1"
    by (simp add: unat_word_ariths)
  have sub: "unat (tries s + 1 - 1) = unat (tries s + 1) - 1" using u by simp
  have r: "\<forall>now r. transient r \<and> tries s + 1 < maxTries \<longrightarrow>
           onRemoteResult now r s =
             (StepRetry,
              s\<lparr>tries := tries s + 1,
                after := now + of_nat (unat retryInterval)
                               * retryBackoff ^ (unat (tries s + 1) - 1)\<rparr>)"
    using sub by (simp add: onRemoteResult_def Let_def transient_def retryDelay_def)
  have d: "\<forall>now r. transient r \<and> \<not> tries s + 1 < maxTries \<longrightarrow>
           fst (onRemoteResult now r s) = StepFailedDefinitively"
    by (simp add: onRemoteResult_def Let_def transient_def)
  have m: "\<forall>n m. 1 \<le> n \<and> n < m \<longrightarrow> retryDelay n < retryDelay m"
    using retryDelay_mono by blast
  have c: "maxTries = 5 \<and> retryInterval = 60 \<and> retryBackoff = 3"
    by (simp add: maxTries_def retryInterval_def retryBackoff_def)
  from t r d m c show ?thesis by blast
qed

lemma attempts_retry:
  assumes "attempts v s" and "v = None \<or> v = Some StepRetry"
    and "onRemoteResult now r s = (StepRetry, s')"
  shows "attempts (Some StepRetry) s'"
  using assms by (rule attempts_result)

lemma four_retries:
  "attempts (Some StepRetry) ((Step_State_init 0)\<lparr>tries := 4, after := 2020\<rparr>)"
proof -
  let ?r = "RemoteResult_init\<lparr>canRetry := True\<rparr>"
  let ?s = "\<lambda>k a. (Step_State_init 0)\<lparr>tries := k, after := a\<rparr>"
  have e1: "onRemoteResult 100 ?r (Step_State_init 0) = (StepRetry, ?s 1 160)"
    by (simp add: onRemoteResult_def transient_def RemoteResult_init_def Step_State_init_def
        maxTries_def retryDelay_def retryInterval_def retryBackoff_def)
  have e2: "onRemoteResult 200 ?r (?s 1 160) = (StepRetry, ?s 2 380)"
    by (simp add: onRemoteResult_def transient_def RemoteResult_init_def Step_State_init_def
        maxTries_def retryDelay_def retryInterval_def retryBackoff_def)
  have e3: "onRemoteResult 300 ?r (?s 2 380) = (StepRetry, ?s 3 840)"
    by (simp add: onRemoteResult_def transient_def RemoteResult_init_def Step_State_init_def
        maxTries_def retryDelay_def retryInterval_def retryBackoff_def)
  have e4: "onRemoteResult 400 ?r (?s 3 840) = (StepRetry, ?s 4 2020)"
    by (simp add: onRemoteResult_def transient_def RemoteResult_init_def Step_State_init_def
        maxTries_def retryDelay_def retryInterval_def retryBackoff_def)
  have a1: "attempts (Some StepRetry) (?s 1 160)"
    by (rule attempts_retry [OF attempts_init _ e1]) simp
  have a2: "attempts (Some StepRetry) (?s 2 380)"
    by (rule attempts_retry [OF a1 _ e2]) simp
  have a3: "attempts (Some StepRetry) (?s 3 840)"
    by (rule attempts_retry [OF a2 _ e3]) simp
  show ?thesis
    by (rule attempts_retry [OF a3 _ e4]) simp
qed

theorem retry_policy_bounded_backoff_witness:
  "tries ((Step_State_init 0)\<lparr>tries := 4, after := 2020\<rparr>) \<le> maxTries
   \<and> fst (onRemoteResult 500 (RemoteResult_init\<lparr>canRetry := True\<rparr>)
            ((Step_State_init 0)\<lparr>tries := 4, after := 2020\<rparr>)) = StepFailedDefinitively
   \<and> onRemoteResult 100 (RemoteResult_init\<lparr>canRetry := True\<rparr>) (Step_State_init 0)
       = (StepRetry, (Step_State_init 0)\<lparr>tries := 1, after := 160\<rparr>)
   \<and> retryDelay 3 < retryDelay 4"
proof -
  let ?r = "RemoteResult_init\<lparr>canRetry := True\<rparr>"
  have tr: "transient ?r" by (simp add: transient_def RemoteResult_init_def)
  note last = retry_policy_bounded_backoff [OF four_retries]
  note first = retry_policy_bounded_backoff [OF attempts_init [of 0]]
  have 1: "tries ((Step_State_init 0)\<lparr>tries := 4, after := 2020\<rparr>) \<le> maxTries"
    using last by blast
  have "\<not> tries ((Step_State_init 0)\<lparr>tries := 4, after := 2020\<rparr>) + 1 < maxTries"
    by (simp add: maxTries_def)
  with tr last have 2: "fst (onRemoteResult 500 ?r
            ((Step_State_init 0)\<lparr>tries := 4, after := 2020\<rparr>)) = StepFailedDefinitively"
    by blast
  have "tries (Step_State_init 0) + 1 < maxTries"
    by (simp add: maxTries_def Step_State_init_def)
  with tr first have "onRemoteResult 100 ?r (Step_State_init 0) =
             (StepRetry,
              (Step_State_init 0)\<lparr>tries := tries (Step_State_init 0) + 1,
                after := 100 + of_nat (unat retryInterval)
                               * retryBackoff ^ (unat (tries (Step_State_init 0) + 1) - 1)\<rparr>)"
    by blast
  then have 3: "onRemoteResult 100 ?r (Step_State_init 0)
       = (StepRetry, (Step_State_init 0)\<lparr>tries := 1, after := 160\<rparr>)"
    by (simp add: Step_State_init_def retryInterval_def retryBackoff_def)
  have "(1::32 word) \<le> 3 \<and> (3::32 word) < 4" by simp
  with last have 4: "retryDelay 3 < retryDelay 4" by blast
  from 1 2 3 4 show ?thesis by blast
qed

subsection \<open>The runnable queue\<close>



















lemma makeRunnable_fields [simp]:
  "activeSteps (makeRunnable now p e) = activeSteps e"
  "retrying (makeRunnable now p e) = retrying e"
  "finished (makeRunnable now p e) = finished e"
  "failed (makeRunnable now p e) = failed e"
  "runnable (makeRunnable now p e) = runnable e @ [p]"
  by (simp_all add: makeRunnable_def)

lemma makeRunnable_steps [simp]:
  "deps_of (steps (makeRunnable now p e)) q = deps_of (steps e) q"
  "rdeps_of (steps (makeRunnable now p e)) q = rdeps_of (steps e) q"
  "(steps (makeRunnable now p e) q = None) = (steps e q = None)"
  by (simp_all add: makeRunnable_def deps_of_def rdeps_of_def split: option.splits)

lemma fold_makeRunnable_fields [simp]:
  "activeSteps (fold (makeRunnable now) ps e) = activeSteps e"
  "retrying (fold (makeRunnable now) ps e) = retrying e"
  "finished (fold (makeRunnable now) ps e) = finished e"
  "failed (fold (makeRunnable now) ps e) = failed e"
  "set (runnable (fold (makeRunnable now) ps e)) = set (runnable e) \<union> set ps"
  by (induction ps arbitrary: e) auto

lemma fold_makeRunnable_steps [simp]:
  "deps_of (steps (fold (makeRunnable now) ps e)) q = deps_of (steps e) q"
  "rdeps_of (steps (fold (makeRunnable now) ps e)) q = rdeps_of (steps e) q"
  "(steps (fold (makeRunnable now) ps e) q = None) = (steps e q = None)"
  by (induction ps arbitrary: e) simp_all






































end
